theory Spec2Isabelle
  imports Complex_Main
begin

section \<open>Python values shared by the notebooks\<close>

text \<open>
  The repository is four teaching notebooks: Feldman-Cousins intervals, the Monty Hall
  simulation, a neural network on the wine-quality data, and a check of Wilks' theorem.
  Python floats are modelled as \<^typ>\<open>real\<close> (so rounding, infinities and NaN are outside
  the model), Python ints as \<^typ>\<open>int\<close>, and a raised exception as a value of
  \<open>py_error\<close> on the left of a sum.
\<close>

datatype py_error = ZeroDivisionError | IndexError | ValueError | URLError

text \<open>
  The builtin \<^verbatim>\<open>max(a, b)\<close> keeps the first argument unless a later one is strictly
  greater.
\<close>

definition py_max :: "real \<Rightarrow> real \<Rightarrow> real" where
  "py_max a b = (if a < b then b else a)"

text \<open>\<^verbatim>\<open>a / b\<close> with a Python int as divisor raises on a zero divisor.\<close>

definition py_truediv :: "real \<Rightarrow> real \<Rightarrow> py_error + real" where
  "py_truediv a b = (if b = 0 then Inl ZeroDivisionError else Inr (a / b))"

text \<open>
  The values that the notebooks compute with are numpy \<^verbatim>\<open>float64\<close> scalars: the elements
  of \<^verbatim>\<open>np.linspace\<close> and \<^verbatim>\<open>np.random.normal\<close> arrays and every sum and quotient of
  them. A finite one is modelled by its real value. Dividing by a \<^verbatim>\<open>float64\<close> zero raises
  nothing: numpy prints a RuntimeWarning and returns nan for \<open>0 / 0\<close> and an infinity with
  the sign of the dividend otherwise (a difference or a sum that is zero is \<open>+0.0\<close>).
\<close>

datatype np_float = Finite real | PosInf | NegInf | NaN

definition np_truediv :: "real \<Rightarrow> real \<Rightarrow> np_float" where
  "np_truediv a b =
     (if b \<noteq> 0 then Finite (a / b)
      else if a = 0 then NaN
      else if 0 < a then PosInf
      else NegInf)"


text \<open>\<^verbatim>\<open>int(x)\<close> on a float truncates towards zero.\<close>

definition py_int :: "real \<Rightarrow> int" where
  "py_int x = (if 0 \<le> x then \<lfloor>x\<rfloor> else \<lceil>x\<rceil>)"

text \<open>\<^verbatim>\<open>range(a, b)\<close> lists \<open>a, a + 1, ..., b - 1\<close> and is empty when \<open>b \<le> a\<close>.\<close>

definition py_range :: "int \<Rightarrow> int \<Rightarrow> int list" where
  "py_range a b = [a..b - 1]"

section \<open>Feldman-Cousins notebook\<close>

subsection \<open>The boundary-respecting estimator\<close>

text \<open>
  \<^verbatim>\<open>
  def mle(x):
      # This implements the boundary at zero
      return max(0.,x)
  \<close>
\<close>

definition mle :: "real \<Rightarrow> real" where
  "mle x = py_max 0 x"

text \<open>
  The version for raw data, a vector of measurements:
  \<^verbatim>\<open>
  def mle(x):
      return max([sum(x)/len(x), 0.])
  \<close>
  \<^verbatim>\<open>sum(x)/len(x)\<close> raises ZeroDivisionError on an empty vector.
\<close>

definition mle_vec :: "real list \<Rightarrow> py_error + real" where
  "mle_vec x =
     (case py_truediv (sum_list x) (real (length x)) of
        Inl e \<Rightarrow> Inl e
      | Inr m \<Rightarrow> Inr (py_max m 0))"

subsection \<open>The crude integral \<open>px\<close>\<close>

text \<open>
  \<^verbatim>\<open>
  def px(qdist,qobs,xspace=None,noprint=False):
      # VERY crude integral
      if xspace is None:
          return(float(sum([ x for x in qdist if x >qobs])/sum(qdist)))
      portion=[]
      for i,x in zip(qdist,xspace):
          if i>qobs:
              portion.append(x)

      return (portion[-1]-portion[0])/(xspace[-1]-xspace[0])
  \<close>
  \<open>qdist\<close> is the list of \<^verbatim>\<open>float64\<close> values that the function \<open>qdist\<close> of the notebook
  returns, \<open>xspace\<close> an \<^verbatim>\<open>np.linspace\<close> array. \<^verbatim>\<open>sum\<close> of an empty list is the int 0, so
  on an empty \<open>qdist\<close> the first division is \<open>0 / 0\<close> on ints and raises
  ZeroDivisionError; on a list that is not empty \<^verbatim>\<open>sum(qdist)\<close> is a \<^verbatim>\<open>float64\<close> and the
  division is numpy's. \<^verbatim>\<open>portion[-1]\<close> is read first and raises IndexError on an empty
  \<open>portion\<close>; when \<open>portion\<close> is not empty neither is \<open>xspace\<close>, and the division is
  numpy's. The function has no \<^verbatim>\<open>try\<close>: an exception leaves it as the result.
\<close>

definition px :: "real list \<Rightarrow> real \<Rightarrow> real list option \<Rightarrow> bool \<Rightarrow> py_error + np_float" where
  "px qdist qobs xspace noprint =
     (case xspace of
        None \<Rightarrow>
          (if qdist = [] then Inl ZeroDivisionError
           else Inr (np_truediv (sum_list [x \<leftarrow> qdist. qobs < x]) (sum_list qdist)))
      | Some xs \<Rightarrow>
          (let portion = map snd [ix \<leftarrow> zip qdist xs. qobs < fst ix]
           in if portion = [] then Inl IndexError
              else Inr (np_truediv (last portion - hd portion) (last xs - hd xs))))"

subsection \<open>The variation with raw data\<close>






section \<open>Monty Hall notebook\<close>

text \<open>
  The source of the simulation gives the counters, the doors, the loop header and the two
  printed rates; the body of the loop is left to the student as comments:
  \<^verbatim>\<open>
  def monty_from_tijms(games=10000):
      switch_wins=0 # Number of times switching door wins
      stay_wins=0 # Number of times staying with the first chosen door wins
      doors = [1, 2, 3]
      for game in range(games): # Each game
          prize_door = # randomly choose the door that contains the prize
          chosen_door = # player picks a door at random
          opened_door = # Monty Hall opens a non-prize non-chosen door
          switch_door = # Select the door that would be chosen if switching
          # Check if chosen_door would win, and add to counter
          # Check if switch_door would win, and add to counter

      print('Win rate with a "don\'t switch" strategy:', stay_wins/games )
      print('Win rate with a "switch" strategy:', switch_wins/games)
  \<close>
  A random run is modelled by its finite distribution: the list of the outcomes with
  their probabilities.
\<close>

type_synonym 'a dist = "('a \<times> real) list"

text \<open>
  \<^verbatim>\<open>random.choice(xs)\<close> picks each position of \<open>xs\<close> with the same probability. (It raises
  IndexError on an empty list; here the empty list gives the empty distribution, and the
  game below never chooses from an empty list.)
\<close>

definition choice :: "'a list \<Rightarrow> 'a dist" where
  "choice xs = map (\<lambda>x. (x, 1 / real (length xs))) xs"

definition return_dist :: "'a \<Rightarrow> 'a dist" where
  "return_dist x = [(x, 1)]"

definition bind_dist :: "'a dist \<Rightarrow> ('a \<Rightarrow> 'b dist) \<Rightarrow> 'b dist" where
  "bind_dist d k = concat (map (\<lambda>(x, p). map (\<lambda>(y, q). (y, p * q)) (k x)) d)"

definition expectation :: "('a \<Rightarrow> real) \<Rightarrow> 'a dist \<Rightarrow> real" where
  "expectation f d = sum_list (map (\<lambda>(x, p). p * f x) d)"

definition probability :: "('a \<Rightarrow> bool) \<Rightarrow> 'a dist \<Rightarrow> real" where
  "probability E d = expectation (\<lambda>x. if E x then 1 else 0) d"

definition doors :: "int list" where
  "doors = [1, 2, 3]"

record game =
  prize_door :: int
  chosen_door :: int
  opened_door :: int
  switch_door :: int

text \<open>
  Modelled from the spec: the four assignments of the loop body, which the source leaves
  as gaps. The prize door and the chosen door are drawn from \<open>doors\<close>, Monty's door from
  the doors that are neither, and the switch door is the one door that is neither chosen
  nor opened.
\<close>

definition play_game :: "game dist" where
  "play_game =
     bind_dist (choice doors) (\<lambda>prize.
     bind_dist (choice doors) (\<lambda>chosen.
     bind_dist (choice [d \<leftarrow> doors. d \<noteq> prize \<and> d \<noteq> chosen]) (\<lambda>opened.
     bind_dist (choice [d \<leftarrow> doors. d \<noteq> chosen \<and> d \<noteq> opened]) (\<lambda>switch.
     return_dist \<lparr>prize_door = prize, chosen_door = chosen,
                  opened_door = opened, switch_door = switch\<rparr>))))"

record tally =
  switch_wins :: int
  stay_wins :: int

text \<open>
  Modelled from the spec: the two counter updates of the loop body, which the source
  leaves as comments ("Check if ... would win, and add to counter").
\<close>

definition count_game :: "tally \<Rightarrow> game \<Rightarrow> tally" where
  "count_game t g =
     \<lparr>switch_wins = switch_wins t + (if switch_door g = prize_door g then 1 else 0),
      stay_wins = stay_wins t + (if chosen_door g = prize_door g then 1 else 0)\<rparr>"

text \<open>The loop \<^verbatim>\<open>for game in range(games)\<close>, by the number of its passes.\<close>

fun play_games :: "nat \<Rightarrow> tally dist" where
  "play_games 0 = return_dist \<lparr>switch_wins = 0, stay_wins = 0\<rparr>"
| "play_games (Suc n) =
     bind_dist (play_games n) (\<lambda>t.
     bind_dist play_game (\<lambda>g. return_dist (count_game t g)))"

record rates =
  stay_rate :: real
  switch_rate :: real

text \<open>
  The two printed rates. \<^verbatim>\<open>range(games)\<close> makes \<open>nat games\<close> passes, and
  \<^verbatim>\<open>stay_wins/games\<close> raises ZeroDivisionError when \<open>games\<close> is 0.
\<close>

definition monty_from_tijms :: "int \<Rightarrow> py_error + rates dist" where
  "monty_from_tijms games =
     (if games = 0 then Inl ZeroDivisionError
      else Inr (map (\<lambda>(t, p).
                  (\<lparr>stay_rate = real_of_int (stay_wins t) / real_of_int games,
                    switch_rate = real_of_int (switch_wins t) / real_of_int games\<rparr>, p))
                (play_games (nat games))))"

section \<open>Wine-quality notebook\<close>

subsection \<open>Downloading the data sets\<close>


definition basename :: "string \<Rightarrow> string" where
  "basename p = rev (takeWhile (\<lambda>c. c \<noteq> CHR ''/'') (rev p))"

definition files :: "string list" where
  "files =
     [''https://archive.ics.uci.edu/ml/machine-learning-databases/wine-quality/winequality-red.csv'',
      ''https://archive.ics.uci.edu/ml/machine-learning-databases/wine-quality/winequality-white.csv'']"





subsection \<open>The train/test split\<close>

text \<open>
  \<^verbatim>\<open>
  data = data.sample(frac=1).reset_index(drop=True)

  data_tr=data.head(int(len(data)/2))
  data_te=data.tail(len(data)-int(len(data)/2))

  print('Sanity check: ', len(data), '==', len(data_tr), '+', len(data_te),': ', len(data)==len(data_tr)+len(data_te))
  \<close>
  A data frame is the list of its rows, each with its index label. \<^verbatim>\<open>sample(frac=1)\<close>
  returns the rows in a random order, given here by the list \<open>perm\<close> of the positions it
  draws (each position below the length once); \<^verbatim>\<open>reset_index(drop=True)\<close> relabels the rows \<open>0, 1, ...\<close>; \<^verbatim>\<open>head(n)\<close> and
  \<^verbatim>\<open>tail(n)\<close> are pandas' \<^verbatim>\<open>iloc[:n]\<close> and \<^verbatim>\<open>iloc[-n:]\<close> (\<^verbatim>\<open>tail(0)\<close> is empty).
\<close>

type_synonym 'r dataframe = "(nat \<times> 'r) list"

definition sample_frac1 :: "nat list \<Rightarrow> 'r dataframe \<Rightarrow> 'r dataframe" where
  "sample_frac1 perm df = map (\<lambda>i. df ! i) perm"

definition reset_index :: "'r dataframe \<Rightarrow> 'r dataframe" where
  "reset_index df = zip [0..<length df] (map snd df)"

definition head_df :: "int \<Rightarrow> 'r dataframe \<Rightarrow> 'r dataframe" where
  "head_df n df = (if 0 \<le> n then take (nat n) df else take (length df - nat (- n)) df)"

definition tail_df :: "int \<Rightarrow> 'r dataframe \<Rightarrow> 'r dataframe" where
  "tail_df n df =
     (if n = 0 then []
      else if 0 < n then drop (length df - nat n) df
      else drop (nat (- n)) df)"

record 'r split =
  data :: "'r dataframe"
  data_tr :: "'r dataframe"
  data_te :: "'r dataframe"
  sanity_check :: bool

definition split_cell :: "nat list \<Rightarrow> 'r dataframe \<Rightarrow> 'r split" where
  "split_cell perm df =
     (let data = reset_index (sample_frac1 perm df);
          data_tr = head_df (py_int (real (length data) / 2)) data;
          data_te = tail_df (int (length data) - py_int (real (length data) / 2)) data
      in \<lparr>data = data, data_tr = data_tr, data_te = data_te,
          sanity_check = (length data = length data_tr + length data_te)\<rparr>)"

section \<open>Wilks notebook\<close>

text \<open>
  \<^verbatim>\<open>
  n_pseudoexperiments=50
  ...
  for nsampl in n_observations:
      samples=np.zeros(n_pseudoexperiments)
      print("Running pseudoexperiments for {nsampl} observations".format(nsampl=nsampl))
      for toy in range(1, n_pseudoexperiments):
          # Generate nsampl observations from a Poisson(lam)
          # Calculate the likelihood ratio test statistic and store it

      fix, ax = plt.subplots(1,1)
      # It seems easier to normalize the histogram than the chi2
      plt.hist(samples, density=True, color="black")
  \<close>
  \<^verbatim>\<open>np.zeros(n)\<close> raises ValueError for a negative \<open>n\<close>; an assignment to \<^verbatim>\<open>samples[i]\<close>
  raises IndexError outside \<open>-len \<le> i < len\<close>.
\<close>

definition np_zeros :: "int \<Rightarrow> py_error + real list" where
  "np_zeros n = (if n < 0 then Inl ValueError else Inr (replicate (nat n) 0))"

definition setitem :: "real list \<Rightarrow> int \<Rightarrow> real \<Rightarrow> py_error + real list" where
  "setitem a i v =
     (if 0 \<le> i \<and> i < int (length a) then Inr (a[nat i := v])
      else if - int (length a) \<le> i \<and> i < 0 then Inr (a[nat (int (length a) + i) := v])
      else Inl IndexError)"

text \<open>
  Modelled from the spec: the body of the toy loop, which the source leaves as two
  comments. The statistic of pseudo-experiment \<open>toy\<close> is the parameter \<open>stat\<close> (it depends
  on the Poisson draws), and "store it" is the assignment \<^verbatim>\<open>samples[toy] = stat\<close>.
\<close>

fun toy_loop :: "(int \<Rightarrow> real) \<Rightarrow> int list \<Rightarrow> real list \<Rightarrow> py_error + real list" where
  "toy_loop stat [] samples = Inr samples"
| "toy_loop stat (toy # toys) samples =
     (case setitem samples toy (stat toy) of
        Inl e \<Rightarrow> Inl e
      | Inr samples' \<Rightarrow> toy_loop stat toys samples')"

text \<open>The array that one pass of the outer loop hands to \<^verbatim>\<open>plt.hist\<close>.\<close>

definition wilks_samples :: "(int \<Rightarrow> real) \<Rightarrow> int \<Rightarrow> py_error + real list" where
  "wilks_samples stat n_pseudoexperiments =
     (case np_zeros n_pseudoexperiments of
        Inl e \<Rightarrow> Inl e
      | Inr samples \<Rightarrow> toy_loop stat (py_range 1 n_pseudoexperiments) samples)"

section \<open>The gaps left to the student\<close>

text \<open>
  The code cells as they stand in the notebooks, a cell as the list of its lines: every
  code cell of the Monty Hall and of the Wilks notebook, the interval cell of the
  Feldman-Cousins notebook and the activation-function cell of the wine-quality notebook.
\<close>

definition monty_hall_code_cells :: "string list list" where
  \<open>monty_hall_code_cells =
    [[''from random import choice #takes an array as an input and gives one random pick as output'',
      ''# call it like: choice()'',
      ''# if you'',
      ''# import random'',
      ''# then call it like: random.choice()''],
     ['''',
      ''def monty_from_tijms(games=10000):'',
      ''    switch_wins=0 # Number of times switching door wins'',
      ''    stay_wins=0 # Number of times staying with the first chosen door wins'',
      ''    doors = [1, 2, 3]'',
      ''    for game in range(games): # Each game'',
      ''        prize_door = # randomly choose the door that contains the prize'',
      ''        chosen_door = # player picks a door at random'',
      ''        opened_door = # Monty Hall opens a non-prize non-chosen door'',
      ''        switch_door = # Select the door that would be chosen if switching'',
      ''        # Check if chosen_door would win, and add to counter'',
      ''        # Check if switch_door would win, and add to counter'',
      '''',
      ''    print(\'Win rate with a "don'' @ [CHR 0x5C] @ ''\'t switch" strategy:\', stay_wins/games )'',
      ''    print(\'Win rate with a "switch" strategy:\', switch_wins/games)'',
      ''        ''],
     [''# Run simulation'',
      ''monty_from_tijms(10000)''],
     [''def ignorant_monty(games=10000):'',
      ''    switch_wins=0'',
      ''    stay_wins=0'',
      ''    open_wins=0'',
      ''    doors = [1, 2, 3]'',
      ''    for game in range(games):'',
      ''        prize_door = # randomly choose the door that contains the prize'',
      ''        chosen_door = # player picks a door at random'',
      ''        opened_door = # Monty Hall opens a non-chosen door. NOW HE RISKS OPENING THE PRIZE DOOR'',
      ''        switch_door = # Select the door that would be chosen if switching'',
      ''        # Check if chosen_door would win, and add to counter'',
      ''        # Check if switch_door would win, and add to counter'',
      ''        # Sanity check: check if the opened door wins, and add to counter'',
      ''    print(\'Win rate with a "don'' @ [CHR 0x5C] @ ''\'t switch" strategy:\', stay_wins/games )'',
      ''    print(\'Win rate with a "switch" strategy:\', switch_wins/games)'',
      ''    print(\'Loose rate due to "prize is behind opened door":\', open_wins/games)'',
      ''    print(\'Sum of rates:\', (stay_wins+switch_wins+open_wins)/games)''],
     [''# Run simulation'',
      ''ignorant_monty(10000)''],
     []]\<close>

definition wilks_code_cells :: "string list list" where
  \<open>wilks_code_cells =
    [[''import os'',
      ''import sys'',
      ''import numpy as np'',
      ''import matplotlib.pyplot as plt'',
      ''import scipy.stats as ss'',
      ''import math'',
      '''',
      ''%matplotlib inline''],
     [''n_pseudoexperiments=50'',
      '''',
      ''# Poisson lambda'',
      ''lam=0.4'',
      '''',
      ''# Lazily do it in one go'',
      ''n_observations=[10, 100, 1000]''],
     [''for nsampl in n_observations:'',
      ''    samples=np.zeros(n_pseudoexperiments)'',
      ''    print("Running pseudoexperiments for {nsampl} observations".format(nsampl=nsampl))'',
      ''    for toy in range(1, n_pseudoexperiments):'',
      ''        # Generate nsampl observations from a Poisson(lam)'',
      ''        # Calculate the likelihood ratio test statistic and store it'',
      ''        '',
      ''    fix, ax = plt.subplots(1,1)'',
      ''    # It seems easier to normalize the histogram than the chi2'',
      ''    plt.hist(samples, density=True, color="black")'',
      ''    plt.xlabel("Sampled values of log-likelihood ratio values")'',
      ''    plt.ylabel("Frequency")'',
      ''    plt.title("Log-likelihood ratio")'',
      ''    x = np.linspace(0,20)'',
      ''    plt.plot(x,ss.chi2.pdf(x,1))'',
      ''    plt.show()''],
     []]\<close>

definition feldman_cousins_interval_cell :: "string list" where
  \<open>feldman_cousins_interval_cell =
    [''# Compute the intervals'',
     ''# The full MC algorithm is described in Section V.B of the Feldman-Cousins paper'',
     ''# and clarified in https://arxiv.org/abs/1109.0714'',
     ''# To implement the very concise "such that alpha of the simulated experiments have q<qobs",'',
     ''# I did a simple scan of the values of the likelihood ratio, starting from the smallest'',
     ''# originally I was scanning in fixed intervals, but for different theta the likelihood'',
     ''# ratio has different ranges and scales, so a fixed-step scan did not work'',
     ''  '',
     ''alpha=0.90 # for a 90% CI'',
     ''xIntervals=[]'',
     ''mymeasurements=np.linspace(-2.,4., num=50)'',
     ''thetaspace=np.linspace(-2.,6., num=50)'',
     ''count=0'',
     '''',
     ''exampletoys=None'',
     ''examplearr=None'',
     ''exampleqcrit=None'',
     ''for theta in thetaspace:'',
     ''    #1. Draw a toy from the pdf'',
     ''    toys=sample_from_pdf(theta,10000)'',
     ''    #2. Compute the likelihood ratio for this toy'',
     ''    xandqobs = FILL HERE'',
     ''    #3. Find the value of qccritical such that alpha of the toy experiments have q<qcritical'',
     ''    xandqobs=np.array(xandqobs)'',
     ''    xandqobs=FILL HERE # order by likelihood ratio'',
     ''    qcrit=0.'',
     ''    #print(\'theta=\',theta)'',
     ''    for qs in xandqobs[:,1]:'',
     ''        # Since we start from qcrit=0, and the neg-log-likeliood is positive, at first no value will be below'',
     ''        # so the loop is until the fraction becomes > alpha'',
     ''        prob=FILL HERE'',
     '''',
     ''        if prob > alpha:'',
     ''            print(\'Breaking at qcrit\', qcrit)'',
     ''            break'',
     ''        else: # this trick is to pick the last value for which prob >=alpha'',
     ''            qcrit=qs'',
     ''    '',
     ''    #4. The interval is given by the values of x s.t. qobstoy < qcritical'',
     ''    xInterval= FILL HERE'',
     ''    # Sort by likelihood ratio, even if they should already be '',
     ''    xInterval.sort()'',
     ''    xIntervals.append(xInterval)'',
     '''',
     ''    count+=1'',
     ''    '',
     ''plt.hist(exampletoys, bins=mymeasurements, label=\'Toys\')'',
     ''plt.plot(examplearr[:,0],examplearr[:,1], label=\'Likelihood ratio\')'',
     ''plt.axhline(y=exampleqcrit, color=\'r\', linestyle=\'-\')'',
     ''plt.title(\'Toys for theta = %s\'%thetaspace[25])        '',
     ''    '']\<close>

definition wine_sigmoid_cell :: "string list" where
  \<open>wine_sigmoid_cell =
    [''def sigmoid(input):    '',
     ''    return  #FILL HERE'',
     '''',
     ''# Define the sigmoid derivative function'',
     ''def sigmoid_derivative(input):'',
     ''    return #FILL HERE'']\<close>

fun starts_with :: "string \<Rightarrow> string \<Rightarrow> bool" where
  "starts_with [] s = True"
| "starts_with (p # ps) [] = False"
| "starts_with (p # ps) (c # cs) = (p = c \<and> starts_with ps cs)"

fun contains :: "string \<Rightarrow> string \<Rightarrow> bool" where
  "contains pat [] = (pat = [])"
| "contains pat (c # cs) = (starts_with pat (c # cs) \<or> contains pat cs)"

text \<open>A cell is marked when one of its lines holds the words FILL HERE.\<close>

definition fill_here :: "string list \<Rightarrow> bool" where
  "fill_here cell = list_ex (contains ''FILL HERE'') cell"

text \<open>
  The code of a line is what stands before the first \<^verbatim>\<open>#\<close>, without the blanks at its
  end. A line is an open assignment when its code ends with \<^verbatim>\<open>=\<close>: the right-hand side
  is missing and only a comment follows.
\<close>

definition code_of :: "string \<Rightarrow> string" where
  "code_of line = rev (dropWhile (\<lambda>c. c = CHR '' '') (rev (takeWhile (\<lambda>c. c \<noteq> CHR ''#'') line)))"

definition open_assignment :: "string \<Rightarrow> bool" where
  "open_assignment line = (code_of line \<noteq> [] \<and> last (code_of line) = CHR ''='')"

text \<open>
  The body of the block that a header line opens: the lines that follow it up to the
  first line of code indented no deeper than the header. The block is empty when none of
  these lines holds code.
\<close>

definition indent :: "string \<Rightarrow> nat" where
  "indent line = length (takeWhile (\<lambda>c. c = CHR '' '') line)"

definition block_body :: "string \<Rightarrow> string list \<Rightarrow> string list" where
  "block_body header rest = takeWhile (\<lambda>l. code_of l = [] \<or> indent header < indent l) rest"

definition empty_block :: "string \<Rightarrow> string list \<Rightarrow> bool" where
  "empty_block header rest = list_all (\<lambda>l. code_of l = []) (block_body header rest)"

section \<open>All code cells: exception handlers and files\<close>

text \<open>
  Every code cell of the Feldman-Cousins and of the wine-quality notebook, in the order
  of the notebook (the interval cell and the activation-function cell are the two given
  above). With the lists of the section before, these are all the code cells of the
  repository.
\<close>

definition feldman_cousins_code_cells :: "string list list" where
  \<open>feldman_cousins_code_cells =
    [[''import math'',
      ''import numpy as np'',
      ''%matplotlib inline'',
      ''from matplotlib import pyplot as plt''],
     [''# 1D Likelihood'',
      '''',
      ''def sample_from_pdf(theta,N):'',
      ''    # Draw N toys from the gaussian pdf'',
      ''    return np.random.normal(loc=theta, scale=1.0, size=N)'',
      '''',
      '''',
      ''def lnL(x, theta):'',
      ''    return math.log(2*math.pi)-1/2.*(x-theta)**2'',
      '''',
      '''',
      ''def mle(x):'',
      ''    # This implements the boundary at zero'',
      ''    return max(0.,x)'',
      '''',
      ''# here we already did the computation of the likelihood ratio (eq. 4.3 of the paper)'',
      ''def q(x, theta):'',
      ''    # The trick: '',
      ''    #return math.exp(-(x-theta)**2/2.) if x>=0 else math.exp(x*theta -theta**2/2)'',
      ''    return -(x-theta)**2/2. if x>=0 else x*theta -theta**2/2''],
     ['''',
      ''def qdist(theta,measurements=None):'',
      ''    if measurements is None:'',
      ''        measurements=np.linspace(-2.,4., num=2000)'',
      ''    return [ q(x, theta) for x in measurements] '',
      '''',
      ''# Given this function, we also need a function to compute its integral'',
      '''',
      ''def px(qdist,qobs,xspace=None,noprint=False):'',
      ''    # VERY crude integral'',
      ''    if xspace is None:'',
      ''        return(float(sum([ x for x in qdist if x >qobs])/sum(qdist)))'',
      ''    portion=[]'',
      ''    for i,x in zip(qdist,xspace):'',
      ''        if i>qobs:'',
      ''            portion.append(x)'',
      '''',
      ''    return (portion[-1]-portion[0])/(xspace[-1]-xspace[0])''],
     feldman_cousins_interval_cell,
     [''plt.plot(examplearr[:,0],examplearr[:,1], label=\'Likelihood ratio\')'',
      ''plt.yscale(\'log\')'',
      ''plt.axhline(y=exampleqcrit, color=\'r\', linestyle=\'-\')''],
     [''# Plot with range used in the scan'',
      '''',
      ''fc_intervals=[]'',
      ''fc_colors=[]'',
      ''for i, theta in zip(xIntervals, thetaspace):'',
      ''    if len(i)==0:'',
      ''        continue'',
      ''    #fc_intervals.append([(i[0][0],theta),(i[-1][0],theta)])'',
      ''    #fc_intervals.append([(min(i),theta),(max(i),theta)])'',
      ''    fc_intervals.append([(i[0],theta),(i[-1],theta)])'',
      ''    fc_colors.append([0,1,0,1]) # blue?'',
      ''from matplotlib import collections  as mc'',
      ''import pylab as pl'',
      ''fc_coll = mc.LineCollection(fc_intervals, colors=np.array(fc_colors), linewidths=2)'',
      ''fig, ax = pl.subplots()'',
      ''ax.add_collection(fc_coll)'',
      ''ax.autoscale()'',
      ''plt.xlim((min(mymeasurements),max(mymeasurements)))'',
      ''plt.ylim((min(thetaspace), max(thetaspace)))'',
      '''',
      ''plt.title(\'Feldman cousins\')'',
      ''plt.xlabel('' @ [CHR 0x27] @ [CHR 0x5C] @ ''hat{theta}\')'',
      ''plt.ylabel(\'true theta\')''],
     [''# Plot with the range used by Feldman and Cousins'',
      ''other_fc_coll = mc.LineCollection(fc_intervals, colors=np.array(fc_colors), linewidths=2)'',
      '''',
      ''fig, ax = pl.subplots()'',
      ''ax.add_collection(other_fc_coll)'',
      ''#ax.autoscale()'',
      ''ax.set_xlim((-2.,4.))'',
      ''ax.set_ylim((0.,6.))'',
      '''',
      ''plt.title(\'Feldman cousins\')'',
      ''plt.xlabel('' @ [CHR 0x27] @ [CHR 0x5C] @ ''hat{theta}\')'',
      ''plt.ylabel(\'true theta\')''],
     [''# insert code here...''],
     [],
     [''#First we need a likelihood function, or even better the log-likelihood'',
      '''',
      ''# Let\'s assume we have a sample of N i.i.d. normal random variables with unit variance inserted in a vector x, then the likelihood is:'',
      ''def lnL(x, theta):'',
      ''    # Gaussian likelihood'',
      ''    N=len(x)'',
      ''    return -N/2.*math.log(2*math.pi)-1/2.*sum((x-[theta for i in range(len(x))])**2)'',
      '''',
      ''# Since we are at it, let\'s also write down the MLE, that in case of a gaussian likelhood we know analytically it is the mean'',
      ''# We have to slightly modify it, though, to account for the physical boundary (we assume that for a measurement x, the physically-allowed value of the MLE for theta is therefore max(0,x)'',
      '''',
      ''def mle(x):'',
      ''    return max([sum(x)/len(x), 0.])''],
     [''# As a test, now let\'s plot the log likelihood for a specific data realization'',
      ''#xobs=np.random.normal(loc=10, scale=1.0, size=10)'',
      ''xobs=np.random.normal(loc=0.5, scale=1.0, size=10)'',
      '''',
      ''# Let\'s scan a parameter range in theta from 5 to 15'',
      ''thetaspace=np.linspace(5., 15., num=20)'',
      ''print(\'theta space shape:\', thetaspace.shape, \'dataspace:\', xobs.shape)'',
      '''',
      ''mylnL=[ lnL(xobs,theta) for theta in thetaspace ]'',
      '''',
      ''plt.plot(thetaspace, mylnL, label=\'lnL function\')'',
      ''plt.axvline(x=mle(xobs), c=\'red\', label=\'MLE\')'',
      ''plt.title(\'Log likelihood for the given xobs\')'',
      ''plt.xlabel(\'theta\')'',
      ''plt.ylabel(\'lnL(theta; xobs)\')'',
      ''plt.legend(loc=\'best\')''],
     [''# Now we need the likelihood ratio.'',
      ''# Let\'s first assume we don\'t have any nuisance parameter.'',
      '''',
      ''def q(x, theta):'',
      ''    return -2*lnL(x, theta) -2*lnL(x,mle(x)) '',
      '''',
      ''# Let\'s plot the likelihood ratio'',
      '''',
      ''myq=[ q(xobs,theta) for theta in thetaspace ]'',
      '''',
      ''plt.plot(thetaspace, myq, label=\'q_xobs(theta)\')'',
      ''plt.axvline(x=mle(xobs), c=\'red\', label=\'MLE\')'',
      ''plt.title(\'Likelihood ratio for the given xobs\')'',
      ''plt.xlabel(\'theta\')'',
      ''plt.ylabel(\'q(xobs,theta)\')'',
      ''plt.legend(loc=\'best\')''],
     [''# Let\'s generate the distribution of the test statistic for a generic measurement of the mean'',
      '''',
      ''def qdist(theta, anal):'',
      ''    measurements=np.linspace(-5.,15., num=2000)'',
      ''    return [ q(np.random.normal(loc=mu, scale=1.0, size=10), theta) for mu in measurements] '',
      '''',
      ''# Given this function, we also need a function to compute its integral'',
      '''',
      ''def px(qdist,qobs):'',
      ''    # VERY crude integral'',
      ''    return(float(sum([ x for x in qdist if x >=qobs]) / sum(qdist)))''],
     [''# Choose the critical value'',
      ''alpha=0.68'',
      '''',
      ''xIntervals=[]'',
      ''mymeasurements=np.linspace(-5.,15., num=50)'',
      '''',
      ''for theta in thetaspace:'',
      ''    xInterval=[]'',
      ''    for mu in mymeasurements:'',
      ''        xobsi=np.random.normal(loc=mu, scale=1.0, size=10)'',
      ''        qobs=q(xobsi,theta)'',
      ''        qcond=qdist(theta,True)'',
      ''        if px(qcond,qobs) > alpha:'',
      ''            xInterval.append(theta)'',
      ''    xIntervals.append(xInterval)'',
      '''',
      ''print(xIntervals)''],
     [''# Plot this'',
      '''',
      ''lower=[]'',
      ''upper=[]'',
      ''for i in xIntervals:'',
      ''    lower.append(min(i))'',
      ''    upper.append(max(i))'',
      ''    '',
      ''plt.plot(mymeasurements,lower)'',
      ''plt.plot(mymeasurements,upper)'',
      ''plt.axvline(x=mle(xobs), c=\'red\', label=\'MLE\')'',
      ''plt.title(\'Feldman cousins\')'',
      ''plt.xlabel('' @ [CHR 0x27] @ [CHR 0x5C] @ ''hat{theta}\')'',
      ''plt.ylabel(\'true theta\')'',
      ''plt.legend(loc=\'best\')'']]\<close>

definition wine_code_cells :: "string list list" where
  \<open>wine_code_cells =
    [[''import wget'',
      ''import os'',
      ''import numpy as np'',
      ''import pandas as pd'',
      ''from sklearn.model_selection import train_test_split'',
      ''from matplotlib import pyplot as plt''],
     ['''',
      '''',
      ''files=[\'https://archive.ics.uci.edu/ml/machine-learning-databases/wine-quality/winequality-red.csv\','',
      ''    \'https://archive.ics.uci.edu/ml/machine-learning-databases/wine-quality/winequality-white.csv'' @ [CHR 0x27],
      '']'',
      ''    '',
      ''for f in files:'',
      ''    if not os.path.exists(\'./%s\'%os.path.basename(f)): # so that we can rerun this without worrying of duplicate downloads'',
      ''        wget.download(f, \'./%s\'%os.path.basename(f))'',
      ''''],
     [''data = pd.read_csv(\'winequality-red.csv\', delimiter=\';\')'',
      '''',
      ''    '',
      ''# Visualize the first five entries'',
      ''data.head()''],
     [''data = data.sample(frac=1).reset_index(drop=True)'',
      '''',
      ''data_tr=data.head(int(len(data)/2))'',
      ''data_te=data.tail(len(data)-int(len(data)/2))'',
      '''',
      ''print(\'Sanity check: \', len(data), \'==\', len(data_tr), \'+\', len(data_te),\': \', len(data)==len(data_tr)+len(data_te))''],
     [''y_train = np.array(data_tr[\'quality\'])'',
      ''x_train = data_tr.drop([\'quality\'], axis=1).T'',
      ''y_test  = np.array(data_te[\'quality\'])'',
      ''x_test  = data_te.drop([\'quality\'], axis=1).T'',
      ''''],
     [''# a: 2x3'',
      ''a=['',
      ''    [2,2,3],'',
      ''    [2,2,3]'',
      '']'',
      ''# b: 3x4'',
      ''b=['',
      ''   [1,2,3,4],'',
      ''   [1,2,3,4],'',
      ''   [1,2,3,4]'',
      '']'',
      '''',
      ''# a dot b: 2x4'',
      '''',
      ''print(np.dot(a,b))''],
     wine_sigmoid_cell,
     [''x=np.linspace(-10,10,100)'',
      '''',
      ''plt.plot(x, sigmoid(x), label=\'sigmoid(x)\')'',
      ''plt.plot(x, sigmoid_derivative(x), label=\'sigmoid'' @ [CHR 0x5C] @ ''\'(x)\')'',
      ''plt.xlabel(\'x\')'',
      ''plt.ylabel(\'f(x)\')'',
      ''plt.legend(loc=\'best\')''],
     [''n_inputs = x_train.shape[0]'',
      ''n_hidden = 20  '',
      ''n_output = 1''],
     [''# From input layer to hidden layer'',
      ''weights_input_hidden =  #FILL HERE'',
      ''# From hidden layer to output layer'',
      ''weights_hidden_output = #FILL HERE''],
     [''# calculating hidden layer activations'',
      ''hiddenLayer_linearTransform = #FILL HERE'',
      ''hiddenLayer_activations =  #FILL HERE'',
      '''',
      ''# calculating the output'',
      ''outputLayer_linearTransform =  #FILL HERE'',
      ''output =  #FILL HERE'',
      '''',
      '''',
      ''print(output)'',
      '''',
      ''print(\'MSE:\', np.sum(np.square(y_train - output))/len(y_train))''],
     [''error = np.square(y_train - output) / 2''],
     [''# Linear transform of the output going towards hidden layer'',
      ''o_to_h_lincomb  =  #FILL HERE'',
      ''# Linear transform of the output w.r.t. weights of hidden output'',
      ''o_to_h_activation =  #FILL HERE'',
      '''',
      '''',
      '''',
      ''# calculating rate of change of error w.r.t weight between hidden and output layer'',
      ''error_wrt_output =  #FILL HERE'',
      ''output_wrt_outputLayer_LinearTransform =  #FILL HERE'',
      ''outputLayer_LinearTransform_wrt_weights_hidden_output =  #FILL HERE'',
      '''',
      ''error_wrt_weights_hidden_output =  #FILL HERE'',
      '''',
      ''# calculating rate of change of error w.r.t weights between input and hidden layer'',
      ''outputLayer_LinearTransform_wrt_hiddenLayer_activations = #FILL HERE'',
      ''hiddenLayer_activations_wrt_hiddenLayer_linearTransform =  #FILL HERE'',
      ''hiddenLayer_linearTransform_wrt_weights_input_hidden =  #FILL HERE'',
      ''error_wrt_weights_input_hidden =  #FILL HERE''],
     [''# updating the weights'',
      ''weights_hidden_output =  #FILL HERE'',
      ''weights_input_hidden =  #FILL HERE'',
      ''''],
     [],
     [''plt.plot(losses)''],
     []]\<close>



text \<open>The statement of a line: the line without its indentation.\<close>

definition statement :: "string \<Rightarrow> string" where
  "statement line = dropWhile (\<lambda>c. c = CHR '' '') line"


text \<open>
  The calls of a line: for every \<^verbatim>\<open>(\<close> before the first \<^verbatim>\<open>#\<close> (outside the comment),
  the last word that stands before it, blanks between the two left out; it holds the
  name that is called. \<open>word\<close> is the last word so far, in reverse, and \<open>gap\<close> says that a
  blank followed it.
\<close>

fun calls :: "string \<Rightarrow> bool \<Rightarrow> string \<Rightarrow> string list" where
  "calls word gap [] = []"
| "calls word gap (c # cs) =
     (if c = CHR ''#'' then []
      else if c = CHR ''('' then rev word # calls [] False cs
      else if c = CHR '' '' then calls word True cs
      else if gap then calls [c] False cs
      else calls (c # word) False cs)"



text \<open>The download cell of the wine-quality notebook, whose loop is \<open>download_cell\<close>.\<close>

definition download_cell_source :: "string list" where
  "download_cell_source = wine_code_cells ! 1"


section \<open>Properties\<close>

subsection \<open>The estimator respects the boundary\<close>

text \<open>
  C10, as amended. The scalar estimator \<open>max(0., x)\<close> is never negative, returns its
  argument exactly when the argument is nonnegative, and is idempotent. The vector
  estimator returns a nonnegative value on every vector that is not empty, the mean
  exactly when the mean is nonnegative; on the empty vector it raises ZeroDivisionError
  and returns nothing.
\<close>

theorem mle_boundary:
  "0 \<le> mle x \<and> (mle x = x) = (0 \<le> x) \<and> mle (mle x) = mle x \<and>
   mle_vec [] = Inl ZeroDivisionError \<and>
   (xs \<noteq> [] \<longrightarrow>
      (\<exists>v. mle_vec xs = Inr v \<and> 0 \<le> v \<and>
           (v = sum_list xs / real (length xs)) = (0 \<le> sum_list xs / real (length xs))))"
proof -
  have scalar: "0 \<le> mle x" "(mle x = x) = (0 \<le> x)" "mle (mle x) = mle x"
    by (auto simp: mle_def py_max_def)
  have empty: "mle_vec [] = Inl ZeroDivisionError"
    by (simp add: mle_vec_def py_truediv_def)
  have "\<exists>v. mle_vec xs = Inr v \<and> 0 \<le> v \<and>
           (v = sum_list xs / real (length xs)) = (0 \<le> sum_list xs / real (length xs))"
    if "xs \<noteq> []"
  proof -
    let ?m = "sum_list xs / real (length xs)"
    from that have "py_truediv (sum_list xs) (real (length xs)) = Inr ?m"
      by (simp add: py_truediv_def)
    then have "mle_vec xs = Inr (py_max ?m 0)"
      by (simp add: mle_vec_def)
    moreover have "0 \<le> py_max ?m 0" "(py_max ?m 0 = ?m) = (0 \<le> ?m)"
      by (auto simp: py_max_def)
    ultimately show ?thesis by blast
  qed
  with scalar empty show ?thesis by blast
qed

theorem mle_boundary_witness:
  "[1, -4] \<noteq> ([] :: real list) \<and> mle (-3) = 0 \<and> mle (mle (-3)) = mle (-3) \<and>
   mle 2 = 2 \<and> mle_vec [1, -4] = Inr 0 \<and> mle_vec [1, 4] = Inr (5 / 2)"
  using mle_boundary [of "-3" "[1, -4]"] mle_boundary [of 2 "[1, 4]"]
  by (simp add: mle_def mle_vec_def py_max_def py_truediv_def)

text \<open>
  C10 as stated says that the estimator always returns a nonnegative value. The vector
  version returns no value on the empty vector.
\<close>

theorem mle_vec_empty_raises:
  "\<not> (\<exists>v. mle_vec [] = Inr v \<and> 0 \<le> v)"
  by (simp add: mle_vec_def py_truediv_def)

subsection \<open>Helper facts: the split\<close>

lemma py_int_half: "py_int (real n / 2) = int (n div 2)"
proof -
  have "\<lfloor>real n / real 2\<rfloor> = int (n div 2)"
    by (rule floor_divide_of_nat_eq)
  then show ?thesis by (simp add: py_int_def)
qed

lemma head_half: "head_df (py_int (real (length d) / 2)) d = take (length d div 2) d"
  by (simp add: py_int_half head_df_def)

lemma tail_half:
  "tail_df (int (length d) - py_int (real (length d) / 2)) d = drop (length d div 2) d"
proof (cases "d = []")
  case True
  then show ?thesis by (simp add: py_int_half tail_df_def)
next
  case False
  have "nat (int (length d) - int (length d div 2)) = length d - length d div 2"
    by simp
  moreover have "length d - (length d - length d div 2) = length d div 2"
    by simp
  moreover have "length d div 2 < length d" using False by simp
  ultimately show ?thesis by (simp add: py_int_half tail_df_def)
qed

lemma length_shuffled: "length (reset_index (sample_frac1 perm df)) = length perm"
  by (simp add: reset_index_def sample_frac1_def)

lemma labels_shuffled: "map fst (reset_index (sample_frac1 perm df)) = [0..<length perm]"
  by (simp add: reset_index_def sample_frac1_def)

lemma split_cell_parts:
  "data (split_cell perm df) = reset_index (sample_frac1 perm df)"
  "data_tr (split_cell perm df) = take (length perm div 2) (data (split_cell perm df))"
  "data_te (split_cell perm df) = drop (length perm div 2) (data (split_cell perm df))"
proof -
  define d where "d = reset_index (sample_frac1 perm df)"
  have len: "length d = length perm" by (simp add: d_def length_shuffled)
  have s: "split_cell perm df =
      \<lparr>data = d, data_tr = take (length d div 2) d, data_te = drop (length d div 2) d,
       sanity_check = (length d = length (take (length d div 2) d) + length (drop (length d div 2) d))\<rparr>"
    unfolding split_cell_def Let_def d_def [symmetric] head_half tail_half ..
  show "data (split_cell perm df) = reset_index (sample_frac1 perm df)"
    by (simp add: s d_def)
  show "data_tr (split_cell perm df) = take (length perm div 2) (data (split_cell perm df))"
    by (simp add: s len)
  show "data_te (split_cell perm df) = drop (length perm div 2) (data (split_cell perm df))"
    by (simp add: s len)
qed

lemma split_cell_sanity: "sanity_check (split_cell perm df)"
proof -
  define d where "d = reset_index (sample_frac1 perm df)"
  have "split_cell perm df =
      \<lparr>data = d, data_tr = take (length d div 2) d, data_te = drop (length d div 2) d,
       sanity_check = (length d = length (take (length d div 2) d) + length (drop (length d div 2) d))\<rparr>"
    unfolding split_cell_def Let_def d_def [symmetric] head_half tail_half ..
  then show ?thesis by simp
qed

text \<open>
  C9. The train/test split partitions the shuffled data frame of \<open>n\<close> rows: \<open>data_tr\<close>
  is its first \<open>n div 2\<close> rows, \<open>data_te\<close> its last \<open>n - n div 2\<close> rows, the lengths add
  up to \<open>n\<close> (the cell's own sanity check prints True), and every index label
  \<open>0, ..., n - 1\<close> of the shuffled frame is in exactly one of the two parts.
\<close>

theorem split_partitions:
  assumes "distinct perm" and "set perm = {..<length df}"
  shows "data_tr (split_cell perm df) = take (length df div 2) (data (split_cell perm df)) \<and>
    data_te (split_cell perm df) = drop (length df div 2) (data (split_cell perm df)) \<and>
    length (data (split_cell perm df)) = length df \<and>
    length (data_tr (split_cell perm df)) = length df div 2 \<and>
    length (data_te (split_cell perm df)) = length df - length df div 2 \<and>
    length (data_tr (split_cell perm df)) + length (data_te (split_cell perm df)) = length df \<and>
    sanity_check (split_cell perm df) \<and>
    data_tr (split_cell perm df) @ data_te (split_cell perm df) = data (split_cell perm df) \<and>
    map fst (data (split_cell perm df)) = [0..<length df] \<and>
    map fst (data_tr (split_cell perm df)) = [0..<length df div 2] \<and>
    map fst (data_te (split_cell perm df)) = [length df div 2..<length df] \<and>
    (\<forall>i < length df. (i \<in> fst ` set (data_tr (split_cell perm df))) \<noteq>
                       (i \<in> fst ` set (data_te (split_cell perm df))))"
proof -
  have n: "length perm = length df"
    using assms distinct_card [of perm] by simp
  let ?s = "split_cell perm df"
  note parts = split_cell_parts [of perm df, unfolded n]
  have len: "length (data ?s) = length df"
    by (simp add: parts(1) length_shuffled n)
  have lab: "map fst (data ?s) = [0..<length df]"
    by (simp add: parts(1) labels_shuffled n)
  have tr: "map fst (data_tr ?s) = [0..<length df div 2]"
    by (simp add: parts(2) lab flip: take_map)
  have te: "map fst (data_te ?s) = [length df div 2..<length df]"
    by (simp add: parts(3) lab flip: drop_map)
  have "fst ` set (data_tr ?s) = {0..<length df div 2}"
    using tr by (metis set_map set_upt)
  moreover have "fst ` set (data_te ?s) = {length df div 2..<length df}"
    using te by (metis set_map set_upt)
  ultimately have once: "\<forall>i < length df. (i \<in> fst ` set (data_tr ?s)) \<noteq> (i \<in> fst ` set (data_te ?s))"
    by auto
  have "length (data_tr ?s) = length df div 2" "length (data_te ?s) = length df - length df div 2"
    by (simp_all add: parts(2,3) len)
  moreover have "data_tr ?s @ data_te ?s = data ?s"
    by (simp add: parts(2,3))
  ultimately show ?thesis
    using parts(2,3) len lab tr te once split_cell_sanity [of perm df] by simp
qed

theorem split_partitions_witness:
  "distinct [2, 0, 1::nat] \<and> set [2, 0, 1] = {..<length [(0::nat, ''a''), (1, ''b''), (2, ''c'')]} \<and>
   data (split_cell [2, 0, 1] [(0, ''a''), (1, ''b''), (2, ''c'')]) = [(0, ''c''), (1, ''a''), (2, ''b'')] \<and>
   data_tr (split_cell [2, 0, 1] [(0, ''a''), (1, ''b''), (2, ''c'')]) = [(0, ''c'')] \<and>
   data_te (split_cell [2, 0, 1] [(0, ''a''), (1, ''b''), (2, ''c'')]) = [(1, ''a''), (2, ''b'')]"
proof -
  have d: "distinct [2, 0, 1::nat]" by simp
  have s: "set [2, 0, 1] = {..<length [(0::nat, ''a''), (1, ''b''), (2, ''c'')]}"
    by (auto simp: lessThan_def)
  have dat: "data (split_cell [2, 0, 1] [(0, ''a''), (1, ''b''), (2, ''c'')]) = [(0, ''c''), (1, ''a''), (2, ''b'')]"
    by (simp add: split_cell_parts(1) reset_index_def sample_frac1_def upt_conv_Cons)
  show ?thesis
    using split_partitions [OF d s] d s dat by simp
qed

subsection \<open>Helper facts: the toy loop\<close>

lemma length_py_range: "length (py_range a b) = nat (b - a)"
  by (simp add: py_range_def)

lemma toy_loop_stores:
  assumes "\<forall>t \<in> set toys. 0 \<le> t \<and> t < int (length samples)" and "distinct toys"
  shows "\<exists>s. toy_loop stat toys samples = Inr s \<and> length s = length samples \<and>
           (\<forall>i < length samples.
              s ! i = (if int i \<in> set toys then stat (int i) else samples ! i))"
  using assms
proof (induction toys arbitrary: samples)
  case Nil
  then show ?case by simp
next
  case (Cons toy toys)
  let ?s1 = "samples[nat toy := stat toy]"
  from Cons.prems have rng: "0 \<le> toy" "toy < int (length samples)"
    and notin: "toy \<notin> set toys"
    by auto
  have step: "setitem samples toy (stat toy) = Inr ?s1"
    using rng by (simp add: setitem_def)
  have "\<forall>t \<in> set toys. 0 \<le> t \<and> t < int (length ?s1)" "distinct toys"
    using Cons.prems by auto
  from Cons.IH [OF this] obtain s where
    s: "toy_loop stat toys ?s1 = Inr s" "length s = length ?s1"
       "\<forall>i < length ?s1. s ! i = (if int i \<in> set toys then stat (int i) else ?s1 ! i)"
    by blast
  have "\<forall>i < length samples.
          s ! i = (if int i \<in> set (toy # toys) then stat (int i) else samples ! i)"
  proof (intro allI impI)
    fix i assume i: "i < length samples"
    show "s ! i = (if int i \<in> set (toy # toys) then stat (int i) else samples ! i)"
    proof (cases "int i = toy")
      case True
      then have "nat toy = i" by simp
      with s(3) i notin True show ?thesis by auto
    next
      case False
      then have "nat toy \<noteq> i" using rng by auto
      with s(3) i False show ?thesis by auto
    qed
  qed
  with s step show ?case by simp
qed

text \<open>
  C8. For every \<open>n_pseudoexperiments \<ge> 1\<close> the toy loop runs over
  \<^verbatim>\<open>range(1, n_pseudoexperiments)\<close>, that is over \<open>1, ..., n - 1\<close>: it makes exactly
  \<open>n - 1\<close> passes, none of them for index 0, so the array of \<open>n\<close> zeros reaches the
  histogram with \<open>samples[0]\<close> still 0 and with the statistics of the \<open>n - 1\<close>
  pseudo-experiments in the other entries.
\<close>

theorem wilks_first_sample_unassigned:
  assumes "1 \<le> n"
  shows "py_range 1 n = [1..n - 1] \<and> length (py_range 1 n) = nat (n - 1) \<and>
     0 \<notin> set (py_range 1 n) \<and>
     (\<exists>s. wilks_samples stat n = Inr s \<and> length s = nat n \<and> s ! 0 = 0 \<and>
          (\<forall>toy \<in> set (py_range 1 n). s ! nat toy = stat toy))"
proof -
  let ?z = "replicate (nat n) (0::real)"
  have z: "np_zeros n = Inr ?z"
    using assms by (simp add: np_zeros_def)
  have "\<forall>t \<in> set (py_range 1 n). 0 \<le> t \<and> t < int (length ?z)" "distinct (py_range 1 n)"
    by (auto simp: py_range_def)
  from toy_loop_stores [OF this, of stat] obtain s where
    s: "toy_loop stat (py_range 1 n) ?z = Inr s" "length s = length ?z"
       "\<forall>i < length ?z. s ! i = (if int i \<in> set (py_range 1 n) then stat (int i) else ?z ! i)"
    by blast
  have s0: "s ! 0 = 0"
    using s(3) assms by (auto simp: py_range_def)
  have "\<forall>toy \<in> set (py_range 1 n). s ! nat toy = stat toy"
  proof
    fix toy assume t: "toy \<in> set (py_range 1 n)"
    then have "nat toy < length ?z" "int (nat toy) = toy"
      by (auto simp: py_range_def)
    with s(3) t show "s ! nat toy = stat toy" by auto
  qed
  moreover have "0 \<notin> set (py_range 1 n)"
    by (simp add: py_range_def)
  ultimately show ?thesis
    using s s0 z by (simp add: wilks_samples_def length_py_range) (simp add: py_range_def)
qed

theorem wilks_first_sample_unassigned_witness:
  "(1::int) \<le> 4 \<and> length (py_range 1 4) = 3 \<and>
   wilks_samples (\<lambda>toy. 10 + real_of_int toy) 4 = Inr [0, 11, 12, 13]"
proof -
  have n: "(1::int) \<le> 4" by simp
  have run: "wilks_samples (\<lambda>toy. 10 + real_of_int toy) 4 = Inr [0, 11, 12, 13]"
    by (simp add: wilks_samples_def np_zeros_def py_range_def setitem_def upto.simps
        numeral_eq_Suc)
  show ?thesis
    using wilks_first_sample_unassigned [OF n, of "\<lambda>toy. 10 + real_of_int toy"] run by simp
qed

subsection \<open>Helper facts: expectations\<close>

lemma expectation_Cons: "expectation f ((x, p) # d) = p * f x + expectation f d"
  by (simp add: expectation_def)

lemma expectation_append: "expectation f (d @ e) = expectation f d + expectation f e"
  by (simp add: expectation_def)

lemma expectation_scale: "expectation f (map (\<lambda>(y, q). (y, p * q)) d) = p * expectation f d"
  by (induction d) (auto simp: expectation_def algebra_simps)

lemma expectation_bind:
  "expectation f (bind_dist d k) = expectation (\<lambda>x. expectation f (k x)) d"
proof (induction d)
  case Nil
  then show ?case by (simp add: bind_dist_def expectation_def)
next
  case (Cons xp d)
  obtain x p where xp: "xp = (x, p)" by (cases xp)
  have "bind_dist (xp # d) k = map (\<lambda>(y, q). (y, p * q)) (k x) @ bind_dist d k"
    by (simp add: bind_dist_def xp)
  then show ?case
    using Cons.IH by (simp add: expectation_append expectation_scale expectation_Cons xp)
qed

lemma expectation_return: "expectation f (return_dist x) = f x"
  by (simp add: return_dist_def expectation_def)

lemma expectation_add:
  "expectation (\<lambda>x. f x + g x) d = expectation f d + expectation g d"
  by (induction d) (auto simp: expectation_def algebra_simps)

lemma expectation_const: "expectation (\<lambda>x. c) d = c * expectation (\<lambda>x. 1) d"
  by (induction d) (auto simp: expectation_def algebra_simps)

lemma expectation_divide: "expectation (\<lambda>x. f x / c) d = expectation f d / c"
  by (induction d) (auto simp: expectation_def add_divide_distrib)

lemma expectation_map:
  "expectation f (map (\<lambda>(t, p). (h t, p)) d) = expectation (\<lambda>t. f (h t)) d"
  by (induction d) (auto simp: expectation_def)

lemma play_game_mass: "expectation (\<lambda>g. 1) play_game = 1"
  by (simp add: play_game_def doors_def choice_def bind_dist_def return_dist_def
      expectation_def)

lemma play_game_switch:
  "expectation (\<lambda>g. if switch_door g = prize_door g then 1 else 0) play_game = 2 / 3"
  by (simp add: play_game_def doors_def choice_def bind_dist_def return_dist_def
      expectation_def)

lemma play_game_stay:
  "expectation (\<lambda>g. if chosen_door g = prize_door g then 1 else 0) play_game = 1 / 3"
  by (simp add: play_game_def doors_def choice_def bind_dist_def return_dist_def
      expectation_def)

lemma play_games_mass: "expectation (\<lambda>t. 1) (play_games n) = 1"
  by (induction n) (simp_all add: expectation_bind expectation_return play_game_mass)

lemma real_of_int_if: "real_of_int (if b then 1 else 0) = (if b then 1 else 0)"
  by simp

lemma play_games_switch:
  "expectation (\<lambda>t. real_of_int (switch_wins t)) (play_games n) = 2 / 3 * real n"
proof (induction n)
  case 0
  then show ?case by (simp add: expectation_return)
next
  case (Suc n)
  have "expectation (\<lambda>t. real_of_int (switch_wins t)) (play_games (Suc n)) =
        expectation (\<lambda>t. real_of_int (switch_wins t) +
            expectation (\<lambda>g. if switch_door g = prize_door g then 1 else 0) play_game)
          (play_games n)"
    by (simp add: expectation_bind expectation_return count_game_def expectation_add
        real_of_int_if expectation_const [of "real_of_int (switch_wins t)" for t]
        play_game_mass)
  also have "\<dots> = 2 / 3 * real n + 2 / 3"
    by (simp add: expectation_add Suc.IH play_game_switch
        expectation_const [of "2 / 3"] play_games_mass)
  finally show ?case by (simp add: algebra_simps)
qed

lemma play_games_stay:
  "expectation (\<lambda>t. real_of_int (stay_wins t)) (play_games n) = 1 / 3 * real n"
proof (induction n)
  case 0
  then show ?case by (simp add: expectation_return)
next
  case (Suc n)
  have "expectation (\<lambda>t. real_of_int (stay_wins t)) (play_games (Suc n)) =
        expectation (\<lambda>t. real_of_int (stay_wins t) +
            expectation (\<lambda>g. if chosen_door g = prize_door g then 1 else 0) play_game)
          (play_games n)"
    by (simp add: expectation_bind expectation_return count_game_def expectation_add
        real_of_int_if expectation_const [of "real_of_int (stay_wins t)" for t]
        play_game_mass)
  also have "\<dots> = 1 / 3 * real n + 1 / 3"
    by (simp add: expectation_add Suc.IH play_game_stay
        expectation_const [of "1 / 3"] play_games_mass)
  finally show ?case by (simp add: algebra_simps)
qed

lemma rates_expectations:
  assumes "games \<noteq> 0"
  shows "\<exists>d. monty_from_tijms games = Inr d \<and>
     expectation (\<lambda>r. 1) d = 1 \<and>
     expectation switch_rate d = 2 / 3 * real (nat games) / real_of_int games \<and>
     expectation stay_rate d = 1 / 3 * real (nat games) / real_of_int games"
proof -
  let ?h = "\<lambda>t. \<lparr>stay_rate = real_of_int (stay_wins t) / real_of_int games,
                 switch_rate = real_of_int (switch_wins t) / real_of_int games\<rparr>"
  let ?d = "map (\<lambda>(t, p). (?h t, p)) (play_games (nat games))"
  have "monty_from_tijms games = Inr ?d"
    using assms by (simp add: monty_from_tijms_def)
  moreover have "expectation (\<lambda>r. 1) ?d = 1"
    by (simp only: expectation_map play_games_mass)
  moreover have "expectation switch_rate ?d = 2 / 3 * real (nat games) / real_of_int games"
    by (simp only: expectation_map) (simp add: expectation_divide play_games_switch)
  moreover have "expectation stay_rate ?d = 1 / 3 * real (nat games) / real_of_int games"
    by (simp only: expectation_map) (simp add: expectation_divide play_games_stay)
  ultimately show ?thesis by blast
qed

text \<open>
  C1, as amended. In one game the door list and the draws give a probability
  distribution (total mass 1) under which switching wins with probability 2/3 and
  staying with probability 1/3. For every number of games that is at least 1 the
  simulation prints its two rates, and the expected value of \<^verbatim>\<open>switch_wins/games\<close> is 2/3
  and that of \<^verbatim>\<open>stay_wins/games\<close> is 1/3.
\<close>

theorem monty_switch_wins_two_thirds:
  "expectation (\<lambda>g. 1) play_game = 1 \<and>
   probability (\<lambda>g. switch_door g = prize_door g) play_game = 2 / 3 \<and>
   probability (\<lambda>g. chosen_door g = prize_door g) play_game = 1 / 3 \<and>
   (1 \<le> games \<longrightarrow>
      (\<exists>d. monty_from_tijms games = Inr d \<and> expectation (\<lambda>r. 1) d = 1 \<and>
           expectation switch_rate d = 2 / 3 \<and> expectation stay_rate d = 1 / 3))"
proof -
  have "\<exists>d. monty_from_tijms games = Inr d \<and> expectation (\<lambda>r. 1) d = 1 \<and>
           expectation switch_rate d = 2 / 3 \<and> expectation stay_rate d = 1 / 3"
    if "1 \<le> games"
  proof -
    from that have "games \<noteq> 0" "real (nat games) = real_of_int games" "real_of_int games \<noteq> 0"
      by simp_all
    with rates_expectations [of games] show ?thesis by simp
  qed
  then show ?thesis
    by (simp add: probability_def play_game_mass play_game_switch play_game_stay)
qed

theorem monty_switch_wins_two_thirds_witness:
  "(1::int) \<le> 1 \<and>
   (\<exists>d. monty_from_tijms 1 = Inr d \<and> length d = 12 \<and>
        expectation switch_rate d = 2 / 3 \<and> expectation stay_rate d = 1 / 3)"
proof -
  have "length (play_games 1) = 12"
    by (simp add: play_game_def doors_def choice_def bind_dist_def return_dist_def)
  then have "\<forall>d. monty_from_tijms 1 = Inr d \<longrightarrow> length d = 12"
    by (simp add: monty_from_tijms_def)
  with monty_switch_wins_two_thirds [of 1] show ?thesis by auto
qed

text \<open>
  C1 as stated speaks of every number of games. With \<open>games = 0\<close> the loop is skipped
  and the first \<^verbatim>\<open>print\<close> divides by zero: no rate is produced, so none has expected
  value 2/3.
\<close>

theorem monty_zero_games:
  "\<not> (\<exists>d. monty_from_tijms 0 = Inr d \<and> expectation switch_rate d = 2 / 3)"
  by (simp add: monty_from_tijms_def)

subsection \<open>Helper facts: the download loop\<close>







subsection \<open>Helper facts: the cells that write files\<close>






lemma download_cell_source_calls:
  "hd (calls [] False (download_cell_source ! 7)) = ''os.path.exists'' \<and>
   hd (calls [] False (download_cell_source ! 8)) = ''wget.download''"
  by code_simp








subsection \<open>Helper facts: handlers and failures\<close>






lemma defined_functions:
  "concat (map (filter (\<lambda>line. starts_with ''def '' (statement line)))
     (feldman_cousins_code_cells @ monty_hall_code_cells @ wine_code_cells @ wilks_code_cells)) =
   [''def sample_from_pdf(theta,N):'', ''def lnL(x, theta):'', ''def mle(x):'',
    ''def q(x, theta):'', ''def qdist(theta,measurements=None):'',
    ''def px(qdist,qobs,xspace=None,noprint=False):'', ''def lnL(x, theta):'',
    ''def mle(x):'', ''def q(x, theta):'', ''def qdist(theta, anal):'',
    ''def px(qdist,qobs):'', ''def monty_from_tijms(games=10000):'',
    ''def ignorant_monty(games=10000):'', ''def sigmoid(input):    '',
    ''def sigmoid_derivative(input):'']"
  by code_simp














subsection \<open>Helper facts: the notebooks' gaps\<close>

lemma monty_unmarked: "\<not> list_ex fill_here monty_hall_code_cells"
  by (simp add: fill_here_def monty_hall_code_cells_def)

lemma wilks_unmarked: "\<not> list_ex fill_here wilks_code_cells"
  by (simp add: fill_here_def wilks_code_cells_def)

lemma feldman_cousins_marked:
  "filter (contains ''FILL HERE'') feldman_cousins_interval_cell =
     [''    xandqobs = FILL HERE'',
      ''    xandqobs=FILL HERE # order by likelihood ratio'',
      ''        prob=FILL HERE'',
      ''    xInterval= FILL HERE'']"
  by (simp add: feldman_cousins_interval_cell_def)

lemma wine_marked:
  "filter (contains ''FILL HERE'') wine_sigmoid_cell =
     [''    return  #FILL HERE'', ''    return #FILL HERE'']"
  by (simp add: wine_sigmoid_cell_def)

lemma monty_open_assignments:
  "filter open_assignment (monty_hall_code_cells ! 1) =
     [''        prize_door = # randomly choose the door that contains the prize'',
      ''        chosen_door = # player picks a door at random'',
      ''        opened_door = # Monty Hall opens a non-prize non-chosen door'',
      ''        switch_door = # Select the door that would be chosen if switching'']"
  by (simp add: monty_hall_code_cells_def open_assignment_def code_of_def)

lemma wilks_toy_loop:
  "wilks_code_cells ! 2 ! 3 = ''    for toy in range(1, n_pseudoexperiments):''"
  "block_body (wilks_code_cells ! 2 ! 3) (drop 4 (wilks_code_cells ! 2)) =
     [''        # Generate nsampl observations from a Poisson(lam)'',
      ''        # Calculate the likelihood ratio test statistic and store it'',
      ''        '']"
  "empty_block (wilks_code_cells ! 2 ! 3) (drop 4 (wilks_code_cells ! 2))"
  by (simp_all add: wilks_code_cells_def empty_block_def block_body_def code_of_def indent_def)

text \<open>
  C4, as amended. Every notebook leaves gaps to the student, and two of the four mark
  them with FILL HERE: the interval cell of the Feldman-Cousins notebook and the
  activation-function cell of the wine-quality notebook. No code cell of the Monty Hall
  notebook or of the Wilks notebook holds the words FILL HERE: the Monty Hall simulation
  has four assignments whose right-hand side is only a comment, and the toy loop of the
  Wilks notebook has a body of comments only.
\<close>

theorem gaps_left_to_students:
  "fill_here feldman_cousins_interval_cell \<and> fill_here wine_sigmoid_cell \<and>
   \<not> list_ex fill_here monty_hall_code_cells \<and> \<not> list_ex fill_here wilks_code_cells \<and>
   length (filter open_assignment (monty_hall_code_cells ! 1)) = 4 \<and>
   wilks_code_cells ! 2 ! 3 = ''    for toy in range(1, n_pseudoexperiments):'' \<and>
   empty_block (wilks_code_cells ! 2 ! 3) (drop 4 (wilks_code_cells ! 2))"
proof -
  have fc: "fill_here feldman_cousins_interval_cell"
    by (simp add: fill_here_def feldman_cousins_interval_cell_def)
  have wine: "fill_here wine_sigmoid_cell"
    by (simp add: fill_here_def wine_sigmoid_cell_def)
  have monty: "length (filter open_assignment (monty_hall_code_cells ! 1)) = 4"
    by (simp only: monty_open_assignments) simp
  show ?thesis
    by (intro conjI) (fact fc wine monty_unmarked wilks_unmarked monty wilks_toy_loop)+
qed

theorem gaps_left_to_students_witness:
  "fill_here feldman_cousins_interval_cell \<and>
   feldman_cousins_interval_cell ! 21 = ''    xandqobs = FILL HERE'' \<and>
   fill_here wine_sigmoid_cell \<and>
   wine_sigmoid_cell ! 1 = ''    return  #FILL HERE'' \<and>
   monty_hall_code_cells ! 1 ! 6 =
     ''        prize_door = # randomly choose the door that contains the prize''"
  using gaps_left_to_students
  by (simp add: feldman_cousins_interval_cell_def wine_sigmoid_cell_def
      monty_hall_code_cells_def)

text \<open>
  C4 as stated asks for a cell marked FILL HERE in each of the four notebooks. The
  Monty Hall notebook has none.
\<close>

theorem monty_hall_has_no_marker:
  "\<not> (list_ex fill_here monty_hall_code_cells \<and> list_ex fill_here wilks_code_cells \<and>
      fill_here feldman_cousins_interval_cell \<and> fill_here wine_sigmoid_cell)"
  by (simp add: monty_unmarked)

end
